theory Spec2Isabelle
  imports
    Complex_Main
    "HOL-Library.AList"
    "HOL-Library.Char_ord"
    "HOL-Library.List_Lexorder"
    "HOL-Library.Sublist"
begin

section \<open>Python values: exceptions, strings, paths\<close>

text \<open>
  The exceptions the modelled operations can raise. All but \<open>IndexError\<close>, \<open>ValueError\<close>
  and \<open>ZeroDivisionError\<close> are subclasses of Python's \<open>OSError\<close> (of which \<open>IOError\<close> is
  an alias; \<open>shutil.SameFileError\<close> derives from it through \<open>shutil.Error\<close>). All of them
  are subclasses of \<open>Exception\<close>.
\<close>

datatype py_exn =
  PermissionError | FileNotFoundError | NotADirectoryError | IsADirectoryError
  | FileExistsError | SameFileError | IndexError | ValueError | ZeroDivisionError

fun is_OSError :: "py_exn \<Rightarrow> bool" where
  "is_OSError IndexError = False"
| "is_OSError ValueError = False"
| "is_OSError ZeroDivisionError = False"
| "is_OSError _ = True"

text \<open>
  A Python \<open>str\<close> is a \<open>string\<close>: a list of characters with code points below 256,
  compared lexicographically by code point (\<open>Char_ord\<close>, \<open>List_Lexorder\<close>).
\<close>

definition startswith :: "string \<Rightarrow> string \<Rightarrow> bool" where
  "startswith s pre = (take (length pre) s = pre)"

definition endswith :: "string \<Rightarrow> string \<Rightarrow> bool" where
  "endswith s suf = (length suf \<le> length s \<and> drop (length s - length suf) s = suf)"

text \<open>
  A \<open>pathlib.Path\<close> is the list of its components, outermost first. The process is taken
  to run with the root of the modelled tree as its working directory, so that relative and
  absolute paths coincide; POSIX flavour (case-sensitive names). Paths are ordered as pathlib
  orders them: lexicographically on the component lists. pathlib keeps a component \<open>..\<close> as
  it is written; it is the operating system that resolves it, when the path is used.
\<close>

type_synonym path = "string list"

definition path_name :: "path \<Rightarrow> string" where
  "path_name p = (if p = [] then [] else last p)"

section \<open>The file system\<close>

text \<open>
  A file has a flag saying whether the process may open it, and its contents. A directory
  has two flags, whether it can be listed (read permission) and whether it can be searched
  (the permission to reach what it holds), and its entries in the order in which the
  operating system lists them. Every directory can be written to; there are no symbolic
  links.
\<close>

datatype node = File bool string | Dir bool bool "(string \<times> node) list"



text \<open>The node at a path without \<open>..\<close>, whatever the permissions.\<close>

fun lookup :: "node \<Rightarrow> path \<Rightarrow> node option" where
  "lookup n [] = Some n"
| "lookup (File r c) (x # xs) = None"
| "lookup (Dir r s es) (x # xs) = (case map_of es x of None \<Rightarrow> None | Some m \<Rightarrow> lookup m xs)"

text \<open>
  Path resolution as the operating system does it, one component at a time from the
  directory reached so far (\<open>cur\<close>, a path without \<open>..\<close>): that directory must be a directory
  and searchable; \<open>..\<close> leads to its parent, and the root is its own parent; any other
  component must be an entry of it. The result is the path reached.
\<close>

fun canon :: "node \<Rightarrow> path \<Rightarrow> path \<Rightarrow> py_exn + path" where
  "canon fs cur [] = Inr cur"
| "canon fs cur (x # xs) =
     (case lookup fs cur of
        None \<Rightarrow> Inl FileNotFoundError
      | Some (File r c) \<Rightarrow> Inl NotADirectoryError
      | Some (Dir r s es) \<Rightarrow>
          if \<not> s then Inl PermissionError
          else if x = ''..'' then canon fs (butlast cur) xs
          else
            (case map_of es x of
               None \<Rightarrow> Inl FileNotFoundError
             | Some m \<Rightarrow> canon fs (cur @ [x]) xs))"

text \<open>\<open>os.stat\<close>: the node a path resolves to.\<close>

definition stat :: "node \<Rightarrow> path \<Rightarrow> py_exn + node" where
  "stat fs p =
     (case canon fs [] p of
        Inl e \<Rightarrow> Inl e
      | Inr q \<Rightarrow> (case lookup fs q of None \<Rightarrow> Inl FileNotFoundError | Some n \<Rightarrow> Inr n))"

text \<open>
  \<open>Path.exists\<close> and \<open>Path.is_dir\<close> (Python 3.11 and 3.12) answer \<open>False\<close> when the path is
  missing or leads through a file, and let any other error of \<open>stat\<close> out: below a
  directory that cannot be searched they raise \<open>PermissionError\<close>.
\<close>

definition ignore_error :: "py_exn \<Rightarrow> bool" where
  "ignore_error e = (e = FileNotFoundError \<or> e = NotADirectoryError)"

definition exists :: "node \<Rightarrow> path \<Rightarrow> py_exn + bool" where
  "exists fs p =
     (case stat fs p of
        Inl e \<Rightarrow> if ignore_error e then Inr False else Inl e
      | Inr n \<Rightarrow> Inr True)"

definition is_dir :: "node \<Rightarrow> path \<Rightarrow> py_exn + bool" where
  "is_dir fs p =
     (case stat fs p of
        Inl e \<Rightarrow> if ignore_error e then Inr False else Inl e
      | Inr (File r c) \<Rightarrow> Inr False
      | Inr (Dir r s es) \<Rightarrow> Inr True)"

text \<open>\<open>Path.iterdir\<close> lists a directory that can be read; the paths keep the prefix given.\<close>

definition iterdir :: "node \<Rightarrow> path \<Rightarrow> py_exn + path list" where
  "iterdir fs p =
     (case stat fs p of
        Inl e \<Rightarrow> Inl e
      | Inr (File r c) \<Rightarrow> Inl NotADirectoryError
      | Inr (Dir r s es) \<Rightarrow>
          if r then Inr (map (\<lambda>e. p @ [fst e]) es) else Inl PermissionError)"

subsection \<open>Globbing\<close>

text \<open>
  \<open>Path.glob\<close> yields entries of any kind, directories included, without looking at them:
  the names come from listing the directory. A pattern \<open>*suf\<close> matches the names that end
  with \<open>suf\<close> (also a name starting with a dot, and \<open>suf\<close> itself). A directory that cannot
  be listed contributes nothing: pathlib swallows the \<open>PermissionError\<close> of \<open>scandir\<close>.
  \<open>glob_star suf p n\<close> is the selection from the node \<open>n\<close> found at path \<open>p\<close>.
\<close>

fun glob_star :: "string \<Rightarrow> path \<Rightarrow> node \<Rightarrow> path list" where
  "glob_star suf p (File r c) = []"
| "glob_star suf p (Dir r s es) =
     (if r then map (\<lambda>e. p @ [fst e]) (filter (\<lambda>e. endswith (fst e) suf) es) else [])"

text \<open>
  The recursive pattern \<open>**/*suf\<close> visits the directory itself and then, depth first in
  listing order, every directory below it, selecting the matching entries of each. The
  directories below one that cannot be searched cannot be listed, and contribute nothing.
\<close>

fun rglob_star :: "string \<Rightarrow> path \<Rightarrow> node \<Rightarrow> path list" where
  "rglob_star suf p (File r c) = []"
| "rglob_star suf p (Dir r s es) =
     (if r then
        map (\<lambda>e. p @ [fst e]) (filter (\<lambda>e. endswith (fst e) suf) es)
        @ (if s then concat (map (\<lambda>e. rglob_star suf (p @ [fst e]) (snd e)) es) else [])
      else [])"

text \<open>Appending the elements not yet present, one at a time (\<open>if f not in scripts\<close>).\<close>

fun append_new :: "'a list \<Rightarrow> 'a list \<Rightarrow> 'a list" where
  "append_new acc [] = acc"
| "append_new acc (f # fs) = append_new (if f \<in> set acc then acc else acc @ [f]) fs"

text \<open>
  Both kinds of pattern first ask whether the starting path is a directory, outside any
  handler: that question can raise. A path that is no directory yields nothing.
\<close>

definition glob :: "node \<Rightarrow> path \<Rightarrow> string \<Rightarrow> py_exn + path list" where
  "glob fs d suf =
     (case is_dir fs d of
        Inl e \<Rightarrow> Inl e
      | Inr b \<Rightarrow>
          Inr (if b then (case stat fs d of Inl e \<Rightarrow> [] | Inr n \<Rightarrow> glob_star suf d n) else []))"

text \<open>pathlib's recursive selector never yields the same path twice.\<close>

definition rglob :: "node \<Rightarrow> path \<Rightarrow> string \<Rightarrow> py_exn + path list" where
  "rglob fs d suf =
     (case is_dir fs d of
        Inl e \<Rightarrow> Inl e
      | Inr b \<Rightarrow>
          Inr (if b then
                 (case stat fs d of Inl e \<Rightarrow> [] | Inr n \<Rightarrow> append_new [] (rglob_star suf d n))
               else []))"

section \<open>discovery.py\<close>

subsection \<open>find_scripts\<close>

definition find_scripts :: "node \<Rightarrow> path \<Rightarrow> py_exn + path list" where
  "find_scripts fs scripts_dir =
     (case glob fs scripts_dir ''.lua'' of
        Inl e \<Rightarrow> Inl e
      | Inr lua \<Rightarrow>
     (case glob fs scripts_dir ''.script'' of
        Inl e \<Rightarrow> Inl e
      | Inr script \<Rightarrow>
     (case rglob fs scripts_dir ''.lua'' of
        Inl e \<Rightarrow> Inl e
      | Inr rlua \<Rightarrow>
     (case rglob fs scripts_dir ''.script'' of
        Inl e \<Rightarrow> Inl e
      | Inr rscript \<Rightarrow>
          (let scripts = lua @ script;
               scripts = append_new scripts rlua;
               scripts = append_new scripts rscript
           in Inr (sort scripts))))))"

subsection \<open>discover_mods\<close>

text \<open>
  The result dictionary is an association list in insertion order; \<open>AList.update\<close> is the
  assignment \<open>mods[key] = value\<close> (an existing key keeps its position and gets the new value).
  Nothing in \<open>discover_mods\<close> catches an exception: whatever \<open>is_dir\<close>, \<open>exists\<close>, \<open>iterdir\<close>
  or \<open>find_scripts\<close> raise ends the discovery.
\<close>

type_synonym mods = "(string \<times> path list) list"

definition skip_name :: "string \<Rightarrow> bool" where
  "skip_name n = (startswith n ''.'' \<or> n \<in> set [''__pycache__'', ''backup'', ''backups''])"

text \<open>The inner loop over the children of a subdirectory without \<open>gamedata/scripts\<close>.\<close>

fun scan_subitems :: "node \<Rightarrow> path \<Rightarrow> path list \<Rightarrow> mods \<Rightarrow> py_exn + mods" where
  "scan_subitems fs item [] mods = Inr mods"
| "scan_subitems fs item (subitem # rest) mods =
     (case is_dir fs subitem of
        Inl e \<Rightarrow> Inl e
      | Inr b \<Rightarrow>
          if b then
            (let nested_scripts = subitem @ [''gamedata'', ''scripts''] in
             case exists fs nested_scripts of
               Inl e \<Rightarrow> Inl e
             | Inr ex \<Rightarrow>
                 if ex then
                   (case find_scripts fs nested_scripts of
                      Inl e \<Rightarrow> Inl e
                    | Inr scripts \<Rightarrow>
                        scan_subitems fs item rest
                          (if scripts \<noteq> [] then
                             AList.update (path_name item @ ''/'' @ path_name subitem) scripts mods
                           else mods))
                 else scan_subitems fs item rest mods)
          else scan_subitems fs item rest mods)"

text \<open>The loop over the children of the root.\<close>

fun scan_items :: "node \<Rightarrow> path list \<Rightarrow> mods \<Rightarrow> py_exn + mods" where
  "scan_items fs [] mods = Inr mods"
| "scan_items fs (item # rest) mods =
     (case is_dir fs item of
        Inl e \<Rightarrow> Inl e
      | Inr b \<Rightarrow>
          if \<not> b then scan_items fs rest mods
          else if skip_name (path_name item) then scan_items fs rest mods
          else
            (let scripts_dir = item @ [''gamedata'', ''scripts''] in
             case exists fs scripts_dir of
               Inl e \<Rightarrow> Inl e
             | Inr ex \<Rightarrow>
                 if ex then
                   (case find_scripts fs scripts_dir of
                      Inl e \<Rightarrow> Inl e
                    | Inr scripts \<Rightarrow>
                        scan_items fs rest
                          (if scripts \<noteq> [] then AList.update (path_name item) scripts mods
                           else mods))
                 else
                   (case iterdir fs item of
                      Inl e \<Rightarrow> Inl e
                    | Inr subitems \<Rightarrow>
                        (case scan_subitems fs item subitems mods of
                           Inl e \<Rightarrow> Inl e
                         | Inr mods' \<Rightarrow> scan_items fs rest mods'))))"

text \<open>The first two checks: \<open>if scripts_dir.exists(): scripts = find_scripts(scripts_dir);
  if scripts: mods[key] = scripts\<close>, starting from the empty dictionary.\<close>

definition first_entry :: "node \<Rightarrow> path \<Rightarrow> string \<Rightarrow> py_exn + mods" where
  "first_entry fs scripts_dir key =
     (case exists fs scripts_dir of
        Inl e \<Rightarrow> Inl e
      | Inr ex \<Rightarrow>
          if ex then
            (case find_scripts fs scripts_dir of
               Inl e \<Rightarrow> Inl e
             | Inr scripts \<Rightarrow> Inr (if scripts \<noteq> [] then AList.update key scripts [] else []))
          else Inr [])"

definition discover_mods :: "node \<Rightarrow> path \<Rightarrow> py_exn + mods" where
  "discover_mods fs root_path =
     (if path_name root_path = ''gamedata'' then
        first_entry fs (root_path @ [''scripts'']) ''(root)''
      else
        (case first_entry fs (root_path @ [''gamedata'', ''scripts'']) (path_name root_path) of
           Inl e \<Rightarrow> Inl e
         | Inr mods \<Rightarrow>
             (case iterdir fs root_path of
                Inl e \<Rightarrow> Inl e
              | Inr items \<Rightarrow> scan_items fs items mods)))"

subsection \<open>get_mod_info\<close>

text \<open>
  \<open>read_text(encoding='utf-8', errors='ignore')\<close> cannot fail in decoding; the contents of a
  file are modelled as the text it yields. Opening fails with an \<open>OSError\<close>.
\<close>

definition read_text :: "node \<Rightarrow> path \<Rightarrow> py_exn + string" where
  "read_text fs p =
     (case stat fs p of
        Inl e \<Rightarrow> Inl e
      | Inr (Dir r s es) \<Rightarrow> Inl IsADirectoryError
      | Inr (File r c) \<Rightarrow> if r then Inr c else Inl PermissionError)"

text \<open>
  The line boundaries of \<open>str.splitlines\<close> below code point 256: LF, VT, FF, CR, FS, GS, RS
  and NEL, with CR LF counting as one boundary.
\<close>

definition is_linebreak :: "char \<Rightarrow> bool" where
  "is_linebreak c = (of_char c \<in> set [10, 11, 12, 13, 28, 29, 30, 133 :: nat])"

fun splitlines_from :: "string \<Rightarrow> string \<Rightarrow> string list" where
  "splitlines_from cur [] = (if cur = [] then [] else [cur])"
| "splitlines_from cur [c] = (if is_linebreak c then [cur] else [cur @ [c]])"
| "splitlines_from cur (c # d # cs) =
     (if of_char c = (13 :: nat) \<and> of_char d = (10 :: nat) then cur # splitlines_from [] cs
      else if is_linebreak c then cur # splitlines_from [] (d # cs)
      else splitlines_from (cur @ [c]) (d # cs))"

definition splitlines :: "string \<Rightarrow> string list" where
  "splitlines s = splitlines_from [] s"

text \<open>\<open>str.strip()\<close>: the characters below code point 256 for which \<open>isspace\<close> holds.\<close>

definition is_space :: "char \<Rightarrow> bool" where
  "is_space c = (of_char c \<in> set [9, 10, 11, 12, 13, 28, 29, 30, 31, 32, 133, 160 :: nat])"

definition strip :: "string \<Rightarrow> string" where
  "strip s = rev (dropWhile is_space (rev (dropWhile is_space s)))"

text \<open>\<open>s.split(sep, 1)\<close> for a one-character separator, and list indexing.\<close>

definition split1 :: "char \<Rightarrow> string \<Rightarrow> string list" where
  "split1 sep s =
     (case dropWhile (\<lambda>c. c \<noteq> sep) s of
        [] \<Rightarrow> [s]
      | c # rest \<Rightarrow> [takeWhile (\<lambda>c. c \<noteq> sep) s, rest])"

definition getitem :: "'a list \<Rightarrow> nat \<Rightarrow> py_exn + 'a" where
  "getitem xs i = (if i < length xs then Inr (xs ! i) else Inl IndexError)"

type_synonym info = "(string \<times> string) list"

definition set_field :: "string \<Rightarrow> string \<Rightarrow> info \<Rightarrow> py_exn + info" where
  "set_field key line info =
     (case getitem (split1 (CHR ''='') line) 1 of
        Inl e \<Rightarrow> Inl e
      | Inr v \<Rightarrow> Inr (AList.update key (strip v) info))"

text \<open>The loop over the lines of \<open>meta.ini\<close>.\<close>

fun meta_lines :: "string list \<Rightarrow> info \<Rightarrow> py_exn + info" where
  "meta_lines [] info = Inr info"
| "meta_lines (line # rest) info =
     (if startswith line ''name='' then
        (case set_field ''name'' line info of Inl e \<Rightarrow> Inl e | Inr info' \<Rightarrow> meta_lines rest info')
      else if startswith line ''version='' then
        (case set_field ''version'' line info of Inl e \<Rightarrow> Inl e | Inr info' \<Rightarrow> meta_lines rest info')
      else if startswith line ''author='' then
        (case set_field ''author'' line info of Inl e \<Rightarrow> Inl e | Inr info' \<Rightarrow> meta_lines rest info')
      else meta_lines rest info)"

text \<open>
  \<open>except (OSError, IOError): pass\<close>. In both \<open>try\<close> blocks only \<open>read_text\<close> can raise an
  \<open>OSError\<close>, before \<open>info\<close> is touched, so the handler resumes with \<open>info\<close> as it was. The
  tests \<open>meta_ini.exists()\<close> and \<open>modinfo.exists()\<close> stand outside the \<open>try\<close> blocks: what
  they raise leaves \<open>get_mod_info\<close>.
\<close>

definition except_OSError :: "info \<Rightarrow> py_exn + info \<Rightarrow> py_exn + info" where
  "except_OSError info r =
     (case r of Inl e \<Rightarrow> if is_OSError e then Inr info else Inl e | Inr info' \<Rightarrow> Inr info')"

definition read_meta_ini :: "node \<Rightarrow> path \<Rightarrow> info \<Rightarrow> py_exn + info" where
  "read_meta_ini fs mod_path info =
     (let meta_ini = mod_path @ [''meta.ini''] in
      case exists fs meta_ini of
        Inl e \<Rightarrow> Inl e
      | Inr b \<Rightarrow>
          if b then
            except_OSError info
              (case read_text fs meta_ini of
                 Inl e \<Rightarrow> Inl e
               | Inr content \<Rightarrow> meta_lines (splitlines content) info)
          else Inr info)"

definition read_modinfo :: "node \<Rightarrow> path \<Rightarrow> info \<Rightarrow> py_exn + info" where
  "read_modinfo fs mod_path info =
     (let modinfo = mod_path @ [''modinfo.txt''] in
      case exists fs modinfo of
        Inl e \<Rightarrow> Inl e
      | Inr b \<Rightarrow>
          if b then
            except_OSError info
              (case read_text fs modinfo of
                 Inl e \<Rightarrow> Inl e
               | Inr content \<Rightarrow>
                   (let lines = splitlines content in
                    if lines \<noteq> [] then
                      (case getitem lines 0 of
                         Inl e \<Rightarrow> Inl e
                       | Inr l \<Rightarrow> Inr (AList.update ''name'' (strip l) info))
                    else Inr info))
          else Inr info)"

definition get_mod_info :: "node \<Rightarrow> path \<Rightarrow> py_exn + info" where
  "get_mod_info fs mod_path =
     (case read_meta_ini fs mod_path [(''name'', path_name mod_path)] of
        Inl e \<Rightarrow> Inl e
      | Inr info \<Rightarrow> read_modinfo fs mod_path info)"

section \<open>Writing to the file system\<close>

text \<open>
  \<open>put n p new\<close> stores the node \<open>new\<close> as the entry at the path \<open>p\<close> (without \<open>..\<close>) whose
  parent is an existing directory: a new entry is added at the end of the listing, an
  existing one is replaced in its place. The checks are made by the callers.
\<close>

fun put :: "node \<Rightarrow> path \<Rightarrow> node \<Rightarrow> node" where
  "put n [] new = new"
| "put (File r c) (x # xs) new = File r c"
| "put (Dir r s es) (x # xs) new =
     (case map_of es x of
        None \<Rightarrow> if xs = [] then Dir r s (es @ [(x, new)]) else Dir r s es
      | Some m \<Rightarrow> Dir r s (AList.update x (put m xs new) es))"

text \<open>
  \<open>os.mkdir\<close>: the parent must resolve to a searchable directory, and the name must be new.
\<close>

definition os_mkdir :: "node \<Rightarrow> path \<Rightarrow> py_exn + node" where
  "os_mkdir fs p =
     (if p = [] then Inl FileExistsError
      else
        (case canon fs [] (butlast p) of
           Inl e \<Rightarrow> Inl e
         | Inr d \<Rightarrow>
             (case lookup fs d of
                None \<Rightarrow> Inl FileNotFoundError
              | Some (File r c) \<Rightarrow> Inl NotADirectoryError
              | Some (Dir r s es) \<Rightarrow>
                  if \<not> s then Inl PermissionError
                  else if last p = ''..'' then Inl FileExistsError
                  else
                    (case map_of es (last p) of
                       Some m \<Rightarrow> Inl FileExistsError
                     | None \<Rightarrow> Inr (put fs (d @ [last p]) (Dir True True []))))))"

text \<open>
  \<open>Path.mkdir(parents=True, exist_ok=True)\<close> as pathlib writes it: try \<open>os.mkdir\<close>; on
  \<open>FileNotFoundError\<close> make the parent in the same way and try once more, without
  \<open>parents\<close>; on any other \<open>OSError\<close> be content if the path is a directory, and raise
  again if it is not. The test \<open>self.is_dir()\<close> can raise in its turn.
\<close>

definition exist_ok :: "node \<Rightarrow> path \<Rightarrow> py_exn \<Rightarrow> py_exn + node" where
  "exist_ok fs p e =
     (case is_dir fs p of
        Inl e' \<Rightarrow> Inl e'
      | Inr b \<Rightarrow> if b then Inr fs else Inl e)"

definition mkdir_exist_ok :: "node \<Rightarrow> path \<Rightarrow> py_exn + node" where
  "mkdir_exist_ok fs p =
     (case os_mkdir fs p of
        Inr fs' \<Rightarrow> Inr fs'
      | Inl e \<Rightarrow> if e = FileNotFoundError then Inl e else exist_ok fs p e)"

fun mkdir_p :: "node \<Rightarrow> path \<Rightarrow> py_exn + node" where
  "mkdir_p fs p =
     (case os_mkdir fs p of
        Inr fs' \<Rightarrow> Inr fs'
      | Inl e \<Rightarrow>
          if e = FileNotFoundError then
            (if p = [] then Inl e
             else
               (case mkdir_p fs (butlast p) of
                  Inl e' \<Rightarrow> Inl e'
                | Inr fs1 \<Rightarrow> mkdir_exist_ok fs1 p))
          else exist_ok fs p e)"

declare mkdir_p.simps [simp del]

text \<open>
  Opening a path for writing and storing the contents: the parent must resolve to a
  searchable directory; the file is created there, or an existing file that may be opened
  is overwritten.
\<close>

definition write_file :: "node \<Rightarrow> path \<Rightarrow> string \<Rightarrow> py_exn + node" where
  "write_file fs p c =
     (if p = [] then Inl IsADirectoryError
      else
        (case canon fs [] (butlast p) of
           Inl e \<Rightarrow> Inl e
         | Inr d \<Rightarrow>
             (case lookup fs d of
                None \<Rightarrow> Inl FileNotFoundError
              | Some (File r c') \<Rightarrow> Inl NotADirectoryError
              | Some (Dir r s es) \<Rightarrow>
                  if \<not> s then Inl PermissionError
                  else if last p = ''..'' then Inl IsADirectoryError
                  else
                    (case map_of es (last p) of
                       Some (Dir r' s' es') \<Rightarrow> Inl IsADirectoryError
                     | Some (File r' c') \<Rightarrow>
                         if r' then Inr (put fs (d @ [last p]) (File True c))
                         else Inl PermissionError
                     | None \<Rightarrow> Inr (put fs (d @ [last p]) (File True c))))))"

text \<open>\<open>open(src, 'rb')\<close> and reading all of it fails as \<open>read_text\<close> does.\<close>

definition read_bytes :: "node \<Rightarrow> path \<Rightarrow> py_exn + string" where
  "read_bytes fs p = read_text fs p"

text \<open>\<open>os.path.isdir\<close> and \<open>os.path.samefile\<close> as \<open>shutil\<close> uses them: any error means no.\<close>

definition os_path_isdir :: "node \<Rightarrow> path \<Rightarrow> bool" where
  "os_path_isdir fs p = (case stat fs p of Inr (Dir r s es) \<Rightarrow> True | _ \<Rightarrow> False)"

definition samefile :: "node \<Rightarrow> path \<Rightarrow> path \<Rightarrow> bool" where
  "samefile fs a b =
     (case canon fs [] a of
        Inl e \<Rightarrow> False
      | Inr qa \<Rightarrow> (case canon fs [] b of Inl e \<Rightarrow> False | Inr qb \<Rightarrow> qa = qb))"

text \<open>
  \<open>shutil.copy2\<close>: a destination that is a directory stands for the file of the same name
  inside it; copying a file onto itself is refused; the source is opened before the
  destination. The copied permissions are those of the source, which could be opened.
\<close>

definition copy2 :: "node \<Rightarrow> path \<Rightarrow> path \<Rightarrow> py_exn + node" where
  "copy2 fs src dst =
     (let dst = (if os_path_isdir fs dst then dst @ [path_name src] else dst) in
      if samefile fs src dst then Inl SameFileError
      else
        (case read_bytes fs src of
           Inl e \<Rightarrow> Inl e
         | Inr c \<Rightarrow> write_file fs dst c))"

text \<open>\<open>Path.stat().st_size\<close>; the size reported for a directory is a fixed number.\<close>

definition dir_st_size :: nat where
  "dir_st_size = 4096"

definition st_size :: "node \<Rightarrow> path \<Rightarrow> py_exn + nat" where
  "st_size fs p =
     (case stat fs p of
        Inl e \<Rightarrow> Inl e
      | Inr (File r c) \<Rightarrow> Inr (length c)
      | Inr (Dir r s es) \<Rightarrow> Inr dir_st_size)"

section \<open>tools/script_extractor.py\<close>

text \<open>
  Console output (\<open>print\<close>) and the command-line driver \<open>main\<close>, with its floating-point
  \<open>format_size\<close>, are left out; \<open>extract_scripts\<close> is modelled with the tree it leaves behind.
\<close>

subsection \<open>find_script_files\<close>

definition relative_to :: "path \<Rightarrow> path \<Rightarrow> py_exn + path" where
  "relative_to p base = (if prefix base p then Inr (drop (length base) p) else Inl ValueError)"

type_synonym script = "string \<times> path \<times> path"

text \<open>The inner loop over \<open>scripts_dir.rglob("*.script")\<close>.\<close>

fun add_scripts :: "path \<Rightarrow> string \<Rightarrow> path list \<Rightarrow> script list \<Rightarrow> py_exn + script list" where
  "add_scripts mods_path mod_name [] scripts = Inr scripts"
| "add_scripts mods_path mod_name (script_file # rest) scripts =
     (case relative_to script_file mods_path of
        Inl e \<Rightarrow> Inl e
      | Inr rel_path \<Rightarrow>
          add_scripts mods_path mod_name rest (scripts @ [(mod_name, script_file, rel_path)]))"

text \<open>The outer loop over \<open>mods_path.iterdir()\<close>.\<close>

fun scan_mod_dirs :: "node \<Rightarrow> path \<Rightarrow> path list \<Rightarrow> script list \<Rightarrow> py_exn + script list" where
  "scan_mod_dirs fs mods_path [] scripts = Inr scripts"
| "scan_mod_dirs fs mods_path (mod_dir # rest) scripts =
     (case is_dir fs mod_dir of
        Inl e \<Rightarrow> Inl e
      | Inr b \<Rightarrow>
          if \<not> b then scan_mod_dirs fs mods_path rest scripts
          else
            (let scripts_dir = mod_dir @ [''gamedata'', ''scripts''] in
             case exists fs scripts_dir of
               Inl e \<Rightarrow> Inl e
             | Inr ex \<Rightarrow>
                 if \<not> ex then scan_mod_dirs fs mods_path rest scripts
                 else
                   (case rglob fs scripts_dir ''.script'' of
                      Inl e \<Rightarrow> Inl e
                    | Inr files \<Rightarrow>
                        (case add_scripts mods_path (path_name mod_dir) files scripts of
                           Inl e \<Rightarrow> Inl e
                         | Inr scripts' \<Rightarrow> scan_mod_dirs fs mods_path rest scripts'))))"

definition find_script_files :: "node \<Rightarrow> path \<Rightarrow> py_exn + script list" where
  "find_script_files fs mods_path =
     (case iterdir fs mods_path of
        Inl e \<Rightarrow> Inl e
      | Inr mod_dirs \<Rightarrow> scan_mod_dirs fs mods_path mod_dirs [])"

subsection \<open>extract_scripts\<close>

text \<open>The failure list holds the exception in place of its message \<open>str(e)\<close>.\<close>

record stats =
  stats_mods :: "string set"
  stats_files :: nat
  stats_total_size :: nat
  stats_errors :: "(path \<times> py_exn) list"

definition initial_stats :: stats where
  "initial_stats = \<lparr>stats_mods = {}, stats_files = 0, stats_total_size = 0, stats_errors = []\<rparr>"

definition record_error :: "path \<Rightarrow> py_exn \<Rightarrow> stats \<Rightarrow> stats" where
  "record_error rel_path e st = st\<lparr>stats_errors := stats_errors st @ [(rel_path, e)]\<rparr>"

text \<open>
  The copy loop. The body of the \<open>try\<close> runs in order: create the parent directories, copy,
  count the mod and the file, read the size. \<open>except Exception\<close> catches whatever is raised,
  records it and goes on with the next file; what was done before the failure stays done.
\<close>

fun copy_all :: "path \<Rightarrow> script list \<Rightarrow> stats \<Rightarrow> node \<Rightarrow> stats \<times> node" where
  "copy_all output_path [] st fs = (st, fs)"
| "copy_all output_path ((mod_name, src_path, rel_path) # rest) st fs =
     (let dst_path = output_path @ rel_path in
      case mkdir_p fs (butlast dst_path) of
        Inl e \<Rightarrow> copy_all output_path rest (record_error rel_path e st) fs
      | Inr fs1 \<Rightarrow>
          (case copy2 fs1 src_path dst_path of
             Inl e \<Rightarrow> copy_all output_path rest (record_error rel_path e st) fs1
           | Inr fs2 \<Rightarrow>
               (let st1 = st\<lparr>stats_mods := insert mod_name (stats_mods st),
                              stats_files := stats_files st + 1\<rparr>
                in case st_size fs2 src_path of
                     Inl e \<Rightarrow> copy_all output_path rest (record_error rel_path e st1) fs2
                   | Inr n \<Rightarrow>
                       copy_all output_path rest
                         (st1\<lparr>stats_total_size := stats_total_size st1 + n\<rparr>) fs2)))"

definition extract_scripts :: "node \<Rightarrow> path \<Rightarrow> path \<Rightarrow> py_exn + stats \<times> node" where
  "extract_scripts fs mods_path output_path =
     (case find_script_files fs mods_path of
        Inl e \<Rightarrow> Inl e
      | Inr scripts \<Rightarrow>
          if scripts = [] then Inr (initial_stats, fs)
          else
            (case mkdir_p fs output_path of
               Inl e \<Rightarrow> Inl e
             | Inr fs1 \<Rightarrow> Inr (copy_all output_path scripts initial_stats fs1)))"

section \<open>tools/split_test.py\<close>

subsection \<open>get_mods\<close>

text \<open>The loop over \<open>sorted(mods_path.iterdir())\<close>, appending \<open>(item, script_count)\<close>.\<close>

fun count_mods :: "node \<Rightarrow> path list \<Rightarrow> (path \<times> nat) list \<Rightarrow> py_exn + (path \<times> nat) list" where
  "count_mods fs [] mods = Inr mods"
| "count_mods fs (item # rest) mods =
     (case is_dir fs item of
        Inl e \<Rightarrow> Inl e
      | Inr b \<Rightarrow>
          if b then
            (let scripts_dir = item @ [''gamedata'', ''scripts''] in
             case exists fs scripts_dir of
               Inl e \<Rightarrow> Inl e
             | Inr ex \<Rightarrow>
                 if ex then
                   (case glob fs scripts_dir ''.script'' of
                      Inl e \<Rightarrow> Inl e
                    | Inr files \<Rightarrow>
                        (let script_count = length files in
                         count_mods fs rest
                           (if script_count > 0 then mods @ [(item, script_count)] else mods)))
                 else count_mods fs rest mods)
          else count_mods fs rest mods)"

definition get_mods :: "node \<Rightarrow> path \<Rightarrow> py_exn + (path \<times> nat) list" where
  "get_mods fs mods_path =
     (case iterdir fs mods_path of
        Inl e \<Rightarrow> Inl e
      | Inr items \<Rightarrow> count_mods fs (sort items) [])"

subsection \<open>create_chunk_zip\<close>

text \<open>
  An archive is the list of its members in the order written. \<open>ZipFile.write\<close> stores a file
  with its contents, and a directory as an entry whose name ends in a slash. How an archive
  is laid out in bytes is left to the \<open>zipfile\<close> library: \<open>zip_bytes\<close> is a parameter.
\<close>

datatype zip_member = ZipFile string string | ZipDir string

record env =
  zip_bytes :: "zip_member list \<Rightarrow> string"

definition zip_write :: "node \<Rightarrow> path \<Rightarrow> string \<Rightarrow> py_exn + zip_member" where
  "zip_write fs filename arcname =
     (case stat fs filename of
        Inl e \<Rightarrow> Inl e
      | Inr (Dir r s es) \<Rightarrow> Inr (ZipDir (arcname @ ''/''))
      | Inr (File r c) \<Rightarrow> if r then Inr (ZipFile arcname c) else Inl PermissionError)"

text \<open>
  The two inner loops of \<open>create_chunk_zip\<close> write the matching entries of one scripts
  folder. A failed write, or a \<open>glob\<close> that raises, ends the loops; the members written so
  far stay in the archive, which the \<open>with\<close> statement closes.
\<close>

fun zip_write_all ::
  "node \<Rightarrow> string \<Rightarrow> path list \<Rightarrow> zip_member list \<Rightarrow> zip_member list \<times> py_exn option" where
  "zip_write_all fs mod_name [] zf = (zf, None)"
| "zip_write_all fs mod_name (file # rest) zf =
     (let arc_path = mod_name @ ''/gamedata/scripts/'' @ path_name file in
      case zip_write fs file arc_path of
        Inl e \<Rightarrow> (zf, Some e)
      | Inr m \<Rightarrow> zip_write_all fs mod_name rest (zf @ [m]))"

text \<open>One inner loop: \<open>for f in scripts_dir.glob(pattern): zf.write(f, arc_path)\<close>.\<close>

definition zip_glob ::
  "node \<Rightarrow> string \<Rightarrow> path \<Rightarrow> string \<Rightarrow> zip_member list \<Rightarrow> zip_member list \<times> py_exn option" where
  "zip_glob fs mod_name scripts_dir suf zf =
     (case glob fs scripts_dir suf of
        Inl e \<Rightarrow> (zf, Some e)
      | Inr files \<Rightarrow> zip_write_all fs mod_name files zf)"

fun zip_mods ::
  "node \<Rightarrow> (path \<times> nat) list \<Rightarrow> zip_member list \<Rightarrow> zip_member list \<times> py_exn option" where
  "zip_mods fs [] zf = (zf, None)"
| "zip_mods fs ((mod_path, n) # rest) zf =
     (let scripts_dir = mod_path @ [''gamedata'', ''scripts''] in
      case zip_glob fs (path_name mod_path) scripts_dir ''.script'' zf of
        (zf1, Some e) \<Rightarrow> (zf1, Some e)
      | (zf1, None) \<Rightarrow>
          (case zip_glob fs (path_name mod_path) scripts_dir ''.bak'' zf1 of
             (zf2, Some e) \<Rightarrow> (zf2, Some e)
           | (zf2, None) \<Rightarrow> zip_mods fs rest zf2))"

text \<open>\<open>str(n)\<close> and the format \<open>{n:02d}\<close> for a natural number.\<close>

definition digit :: "nat \<Rightarrow> char" where
  "digit d = char_of (48 + d)"

fun str_nat :: "nat \<Rightarrow> string" where
  "str_nat n = (if n < 10 then [digit n] else str_nat (n div 10) @ [digit (n mod 10)])"

declare str_nat.simps [simp del]

definition format_02d :: "nat \<Rightarrow> string" where
  "format_02d n = (let s = str_nat n in replicate (2 - length s) (CHR ''0'') @ s)"

definition chunk_name :: "nat \<Rightarrow> string" where
  "chunk_name chunk_num = ''mods_chunk_'' @ format_02d chunk_num @ ''.zip''"

text \<open>
  Opening the archive creates or truncates the file before any member is read; closing it
  stores the members written. The result carries the tree left behind, also on failure.
\<close>

definition create_chunk_zip ::
  "env \<Rightarrow> node \<Rightarrow> (path \<times> nat) list \<Rightarrow> nat \<Rightarrow> path \<Rightarrow> (py_exn + path) \<times> node" where
  "create_chunk_zip env fs mods chunk_num output_dir =
     (let zip_path = output_dir @ [chunk_name chunk_num] in
      case write_file fs zip_path (zip_bytes env []) of
        Inl e \<Rightarrow> (Inl e, fs)
      | Inr fs1 \<Rightarrow>
          (case zip_mods fs1 mods [] of
             (zf, err) \<Rightarrow>
               (case write_file fs1 zip_path (zip_bytes env zf) of
                  Inl e \<Rightarrow> (Inl e, fs1)
                | Inr fs2 \<Rightarrow>
                    (case err of
                       Some e \<Rightarrow> (Inl e, fs2)
                     | None \<Rightarrow> (Inr zip_path, fs2)))))"

subsection \<open>main\<close>

text \<open>
  \<open>Path(s)\<close>: the components between slashes, without the empty ones and the dots. A
  component \<open>..\<close> is kept, as pathlib keeps it.
\<close>

fun split_sep :: "char \<Rightarrow> string \<Rightarrow> string \<Rightarrow> string list" where
  "split_sep sep cur [] = [cur]"
| "split_sep sep cur (c # cs) =
     (if c = sep then cur # split_sep sep [] cs else split_sep sep (cur @ [c]) cs)"

definition Path :: "string \<Rightarrow> path" where
  "Path s = filter (\<lambda>c. c \<noteq> [] \<and> c \<noteq> ''.'') (split_sep (CHR ''/'') [] s)"

text \<open>
  The parsed command line, and what the program prints: one message for each \<open>print\<close> (and
  for the prompt of \<open>input\<close>), holding the values that are formatted into the line.
\<close>

record args =
  args_path :: "string option"
  args_chunks :: int
  args_output :: "string option"
  args_list :: bool

datatype msg =
  Prompt
  | NoPathProvided
  | PathDoesNotExist path
  | Scanning path
  | Found nat nat
  | NoModsFound
  | ModsHeader
  | ModLine string nat
  | Splitting int int
  | ChunkStart nat int nat nat
  | ChunkDone string nat
  | Done int path

text \<open>
  How the process ends: \<open>sys.exit(code)\<close> or returning from \<open>main\<close> (code 0), or an exception
  that nothing catches, for which the interpreter exits with code 1.
\<close>

datatype outcome = Exit int | Raised py_exn

fun exit_code :: "outcome \<Rightarrow> int" where
  "exit_code (Exit n) = n"
| "exit_code (Raised e) = 1"

record run =
  run_outcome :: outcome
  run_stdout :: "msg list"
  run_disk :: node

text \<open>\<open>xs[a:b]\<close> for integers \<open>a\<close> and \<open>b\<close>: negative indices count from the end.\<close>

definition slice_index :: "nat \<Rightarrow> int \<Rightarrow> nat" where
  "slice_index n k = (if k < 0 then nat (max (k + int n) 0) else min (nat k) n)"

definition slice :: "'a list \<Rightarrow> int \<Rightarrow> int \<Rightarrow> 'a list" where
  "slice xs a b =
     take (slice_index (length xs) b - slice_index (length xs) a)
       (drop (slice_index (length xs) a) xs)"

text \<open>The loop \<open>for i in range(num_chunks)\<close>, over the values of \<open>i\<close> still to come.\<close>

fun create_chunks ::
  "env \<Rightarrow> (path \<times> nat) list \<Rightarrow> int \<Rightarrow> int \<Rightarrow> path \<Rightarrow> nat list \<Rightarrow> msg list \<Rightarrow> node \<Rightarrow> run" where
  "create_chunks env mods chunk_size num_chunks output_dir [] out fs =
     \<lparr>run_outcome = Exit 0, run_stdout = out @ [Done num_chunks output_dir], run_disk = fs\<rparr>"
| "create_chunks env mods chunk_size num_chunks output_dir (i # rest) out fs =
     (let start_idx = int i * chunk_size;
          end_idx = min ((int i + 1) * chunk_size) (int (length mods));
          chunk_mods = slice mods start_idx end_idx;
          chunk_scripts = sum_list (map snd chunk_mods);
          out = out @ [ChunkStart (i + 1) num_chunks (length chunk_mods) chunk_scripts]
      in case create_chunk_zip env fs chunk_mods (i + 1) output_dir of
           (Inl e, fs') \<Rightarrow> \<lparr>run_outcome = Raised e, run_stdout = out, run_disk = fs'\<rparr>
         | (Inr zip_path, fs') \<Rightarrow>
             (case st_size fs' zip_path of
                Inl e \<Rightarrow> \<lparr>run_outcome = Raised e, run_stdout = out, run_disk = fs'\<rparr>
              | Inr zip_size \<Rightarrow>
                  create_chunks env mods chunk_size num_chunks output_dir rest
                    (out @ [ChunkDone (path_name zip_path) zip_size]) fs'))"

text \<open>
  The path to scan: the argument if there is a non-empty one, else the line typed at the
  prompt, stripped.
\<close>

definition get_path :: "args \<Rightarrow> string \<Rightarrow> msg list \<times> path option" where
  "get_path args stdin_line =
     (if args_path args \<noteq> None \<and> args_path args \<noteq> Some [] then ([], Some (Path (the (args_path args))))
      else
        (let user_input = strip stdin_line in
         if user_input = [] then ([Prompt, NoPathProvided], None)
         else ([Prompt], Some (Path user_input))))"

text \<open>\<open>Path(args.output) if args.output else Path.cwd()\<close>; the working directory is the root.\<close>

definition get_output_dir :: "args \<Rightarrow> path" where
  "get_output_dir args =
     (if args_output args \<noteq> None \<and> args_output args \<noteq> Some [] then Path (the (args_output args))
      else [])"

text \<open>
  \<open>ceil(len(mods) / chunk_size)\<close> is computed on integers; the float division of the source
  gives the same result for fewer than \<open>2 ^ 53\<close> mods.
\<close>

definition main :: "env \<Rightarrow> args \<Rightarrow> string \<Rightarrow> node \<Rightarrow> run" where
  "main env args stdin_line fs =
     (case get_path args stdin_line of
        (out, None) \<Rightarrow> \<lparr>run_outcome = Exit 1, run_stdout = out, run_disk = fs\<rparr>
      | (out, Some mods_path) \<Rightarrow>
          (case exists fs mods_path of
             Inl e \<Rightarrow> \<lparr>run_outcome = Raised e, run_stdout = out, run_disk = fs\<rparr>
           | Inr ex \<Rightarrow>
          if \<not> ex then
            \<lparr>run_outcome = Exit 1, run_stdout = out @ [PathDoesNotExist mods_path], run_disk = fs\<rparr>
          else
            (let out = out @ [Scanning mods_path] in
             case get_mods fs mods_path of
               Inl e \<Rightarrow> \<lparr>run_outcome = Raised e, run_stdout = out, run_disk = fs\<rparr>
             | Inr mods \<Rightarrow>
                 (let total_scripts = sum_list (map snd mods);
                      out = out @ [Found (length mods) total_scripts]
                  in
                  if mods = [] then
                    \<lparr>run_outcome = Exit 1, run_stdout = out @ [NoModsFound], run_disk = fs\<rparr>
                  else if args_list args then
                    \<lparr>run_outcome = Exit 0,
                     run_stdout = out @ [ModsHeader]
                       @ map (\<lambda>m. ModLine (path_name (fst m)) (snd m)) mods,
                     run_disk = fs\<rparr>
                  else
                    (let chunk_size = args_chunks args in
                     if chunk_size = 0 then
                       \<lparr>run_outcome = Raised ZeroDivisionError, run_stdout = out, run_disk = fs\<rparr>
                     else
                       (let num_chunks = - ((- int (length mods)) div chunk_size);
                            out = out @ [Splitting num_chunks chunk_size];
                            output_dir = get_output_dir args
                        in case mkdir_p fs output_dir of
                             Inl e \<Rightarrow> \<lparr>run_outcome = Raised e, run_stdout = out, run_disk = fs\<rparr>
                           | Inr fs1 \<Rightarrow>
                               create_chunks env mods chunk_size num_chunks output_dir
                                 [0..<nat num_chunks] out fs1))))))"

section \<open>Specification vocabulary and example trees\<close>

subsection \<open>Entries seen from a directory\<close>




subsection \<open>What each check of the classifier contributes\<close>

text \<open>The scripts collected from a folder, when the collection returns.\<close>

definition scripts_at :: "node \<Rightarrow> path \<Rightarrow> path list" where
  "scripts_at fs d = (case find_scripts fs d of Inl e \<Rightarrow> [] | Inr scripts \<Rightarrow> scripts)"

definition has_scripts :: "node \<Rightarrow> path \<Rightarrow> bool" where
  "has_scripts fs d =
     (exists fs (d @ [''gamedata'', ''scripts'']) = Inr True
      \<and> scripts_at fs (d @ [''gamedata'', ''scripts'']) \<noteq> [])"

definition candidate :: "node \<Rightarrow> path \<Rightarrow> bool" where
  "candidate fs item = (is_dir fs item = Inr True \<and> \<not> skip_name (path_name item))"

definition needs_listing :: "node \<Rightarrow> path \<Rightarrow> bool" where
  "needs_listing fs item =
     (candidate fs item \<and> exists fs (item @ [''gamedata'', ''scripts'']) = Inr False)"

definition item_entry :: "node \<Rightarrow> string \<Rightarrow> path \<Rightarrow> mods \<Rightarrow> mods" where
  "item_entry fs key scripts_dir mods =
     (if scripts_at fs scripts_dir \<noteq> [] then AList.update key (scripts_at fs scripts_dir) mods
      else mods)"





subsection \<open>Which inspections of a subdirectory succeed\<close>

text \<open>
  \<open>answers r\<close>: the operation returned. \<open>child_ok fs sub\<close>: asking whether \<open>sub\<close> is a
  directory returns, and if it is one, asking whether it holds \<open>gamedata/scripts\<close> returns.
  \<open>item_ok fs item\<close>: asking whether \<open>item\<close> is a directory returns; and if it is one that
  is not skipped, asking whether it holds \<open>gamedata/scripts\<close> returns; and if it does not
  hold it, it can be listed and all its children are \<open>child_ok\<close>.
\<close>

definition answers :: "py_exn + 'a \<Rightarrow> bool" where
  "answers r = (case r of Inl e \<Rightarrow> False | Inr v \<Rightarrow> True)"

definition child_ok :: "node \<Rightarrow> path \<Rightarrow> bool" where
  "child_ok fs sub =
     (answers (is_dir fs sub)
      \<and> (is_dir fs sub = Inr True \<longrightarrow> answers (exists fs (sub @ [''gamedata'', ''scripts'']))))"

definition item_ok :: "node \<Rightarrow> path \<Rightarrow> bool" where
  "item_ok fs item =
     (answers (is_dir fs item)
      \<and> (candidate fs item \<longrightarrow> answers (exists fs (item @ [''gamedata'', ''scripts''])))
      \<and> (needs_listing fs item \<longrightarrow>
           (case iterdir fs item of
              Inl e \<Rightarrow> False
            | Inr subitems \<Rightarrow> \<forall>sub \<in> set subitems. child_ok fs sub)))"

subsection \<open>Example trees\<close>

definition scripts_of :: "(string \<times> node) list \<Rightarrow> node" where
  "scripts_of es =
     Dir True True [(''gamedata'', Dir True True [(''scripts'', Dir True True es)])]"


text \<open>A mods folder with a payload of its own, a plain mod, a nested mod, a mod with an empty
  scripts folder, a backup folder and a stray file.\<close>

definition mods_tree :: node where
  "mods_tree =
     Dir True True
       [(''mods'', Dir True True
          [(''gamedata'', Dir True True
              [(''scripts'', Dir True True [(''r.lua'', File True ''r'')])]),
           (''modA'', scripts_of [(''b.script'', File True ''bb''), (''a.lua'', File True ''a'')]),
           (''pack'', Dir True True
              [(''opt'', scripts_of [(''o.script'', File True ''o'')]),
               (''readme.txt'', File True '''')]),
           (''empty'', scripts_of []),
           (''backup'', scripts_of [(''x.lua'', File True ''x'')]),
           (''notes.txt'', File True '''')])]"

text \<open>A mods folder with one good mod and one folder without any permission.\<close>

definition locked_tree :: node where
  "locked_tree =
     Dir True True
       [(''mods'', Dir True True
          [(''modA'', scripts_of [(''a.lua'', File True ''a'')]),
           (''locked'', Dir False False [])])]"





text \<open>A mod folder whose \<open>meta.ini\<close> cannot be read and whose \<open>modinfo.txt\<close> is a directory.\<close>

definition unreadable_meta_tree :: node where
  "unreadable_meta_tree =
     Dir True True
       [(''modB'', Dir True True
          [(''meta.ini'', File False ''name=Secret''),
           (''modinfo.txt'', Dir True True [])])]"

text \<open>A mod folder that can be listed but not searched (mode 0600), holding a \<open>meta.ini\<close>.\<close>

definition unsearchable_mod_tree :: node where
  "unsearchable_mod_tree =
     Dir True True [(''modB'', Dir True False [(''meta.ini'', File True ''name=B'')])]"

subsection \<open>Sizes of the input files\<close>

definition file_size :: "node \<Rightarrow> path \<Rightarrow> nat" where
  "file_size fs p = (case st_size fs p of Inl e \<Rightarrow> 0 | Inr n \<Rightarrow> n)"

definition input_size :: "node \<Rightarrow> script list \<Rightarrow> nat" where
  "input_size fs scripts = sum_list (map (\<lambda>s. file_size fs (fst (snd s))) scripts)"

subsection \<open>Chunks and archives\<close>

text \<open>Reading a decimal number back, to tell archive names apart.\<close>

definition digit_val :: "char \<Rightarrow> nat" where
  "digit_val c = of_char c - 48"

definition parse_nat :: "string \<Rightarrow> nat" where
  "parse_nat s = foldl (\<lambda>a c. 10 * a + digit_val c) 0 s"

text \<open>The \<open>i\<close>-th batch of \<open>c\<close> consecutive elements, counting from 0.\<close>

definition nth_chunk :: "nat \<Rightarrow> 'a list \<Rightarrow> nat \<Rightarrow> 'a list" where
  "nth_chunk c xs i = take c (drop (i * c) xs)"

text \<open>The members of the archive made from a list of mods, read from the tree \<open>fs\<close>.\<close>

definition archive_members :: "node \<Rightarrow> (path \<times> nat) list \<Rightarrow> zip_member list" where
  "archive_members fs ms = fst (zip_mods fs ms [])"

text \<open>Two trees in which the archives read the same: the same \<open>.script\<close> and \<open>.bak\<close> entries
  in every folder, and the same member for every path that is not an archive.\<close>

definition same_payload :: "node \<Rightarrow> node \<Rightarrow> bool" where
  "same_payload fs fs' =
     ((\<forall>d. glob fs' d ''.script'' = glob fs d ''.script''
           \<and> glob fs' d ''.bak'' = glob fs d ''.bak'')
      \<and> (\<forall>q arc. \<not> endswith (path_name q) ''.zip'' \<longrightarrow> zip_write fs' q arc = zip_write fs q arc))"

subsection \<open>Example trees for the tools\<close>

text \<open>Two mods with \<open>.script\<close> files, one of which cannot be opened.\<close>

definition extract_tree :: node where
  "extract_tree =
     Dir True True
       [(''mods'', Dir True True
          [(''modA'', scripts_of
              [(''a.script'', File True ''aaa''),
               (''locked.script'', File False ''x''),
               (''sub'', Dir True True [(''c.script'', File True ''cc'')])]),
           (''modB'', scripts_of [(''b.script'', File True ''b'')])])]"

text \<open>A mods folder whose first mod holds, inside its scripts folder, copies of the layout
  of both mods; it is exported into that scripts folder.\<close>

definition overlap_tree :: node where
  "overlap_tree =
     Dir True True
       [(''m'', Dir True True
          [(''a'', scripts_of
              [(''x.script'', File True ''1''),
               (''a'', scripts_of [(''x.script'', File True ''22'')]),
               (''b'', scripts_of [(''y.script'', File True ''333'')])]),
           (''b'', scripts_of [(''y.script'', File True ''55555'')])])]"

text \<open>A mods folder without any \<open>.script\<close> file.\<close>

definition lua_only_tree :: node where
  "lua_only_tree =
     Dir True True
       [(''mods'', Dir True True
          [(''modA'', scripts_of [(''a.lua'', File True ''a'')]),
           (''modB'', Dir True True []),
           (''readme.txt'', File True '''')])]"

text \<open>Five mods with \<open>.script\<close> files, listed out of order, one mod with Lua files only.\<close>

definition chunk_tree :: node where
  "chunk_tree =
     Dir True True
       [(''mods'', Dir True True
          [(''m3'', scripts_of [(''c.script'', File True ''ccc'')]),
           (''m1'', scripts_of
              [(''a.script'', File True ''a''), (''a.bak'', File True ''old''),
               (''n.lua'', File True ''n'')]),
           (''m5'', scripts_of [(''e.script'', File True ''e'')]),
           (''m2'', scripts_of [(''b.script'', File True ''bb''), (''d.script'', Dir True True [])]),
           (''m4'', scripts_of [(''d.script'', File True ''d'')]),
           (''lua'', scripts_of [(''x.lua'', File True ''x'')]),
           (''readme.txt'', File True '''')])]"

text \<open>A stand-in for the archive format: the members written one after the other.\<close>

definition member_text :: "zip_member \<Rightarrow> string" where
  "member_text m = (case m of ZipFile a c \<Rightarrow> a @ '':'' @ c @ '';'' | ZipDir a \<Rightarrow> a @ '';'')"

definition test_env :: env where
  "test_env = \<lparr>zip_bytes = (\<lambda>ms. concat (map member_text ms))\<rparr>"

definition list_args :: args where
  "list_args =
     \<lparr>args_path = Some ''mods'', args_chunks = 50, args_output = None, args_list = True\<rparr>"

definition split_args :: args where
  "split_args =
     \<lparr>args_path = Some ''mods'', args_chunks = 2, args_output = Some ''out/zips'',
      args_list = False\<rparr>"

section \<open>Facts about strings and the file system\<close>


lemma startswith_append: "startswith s pre \<Longrightarrow> s = pre @ drop (length pre) s"
  unfolding startswith_def by (metis append_take_drop_id)





subsection \<open>Resolution\<close>

lemma canon_error: "canon fs cur p = Inl e \<Longrightarrow> e = PermissionError \<or> ignore_error e"
  by (induction fs cur p rule: canon.induct)
     (auto simp: ignore_error_def split: option.splits node.splits if_splits)

lemma stat_error: "stat fs p = Inl e \<Longrightarrow> e = PermissionError \<or> ignore_error e"
  by (auto simp: stat_def ignore_error_def split: sum.splits option.splits dest: canon_error)


lemma exists_cases:
  obtains (raises) "stat fs p = Inl PermissionError" "exists fs p = Inl PermissionError"
  | (missing) e where "stat fs p = Inl e" "ignore_error e" "exists fs p = Inr False"
  | (found) n where "stat fs p = Inr n" "exists fs p = Inr True"
proof (cases "stat fs p")
  case (Inl e)
  then show ?thesis using stat_error[OF Inl] raises missing
    by (auto simp: exists_def ignore_error_def)
next
  case (Inr n)
  then show ?thesis using found by (simp add: exists_def)
qed

lemma is_dir_cases:
  obtains (raises) "stat fs p = Inl PermissionError" "is_dir fs p = Inl PermissionError"
  | (missing) e where "stat fs p = Inl e" "ignore_error e" "is_dir fs p = Inr False"
  | (regular) r c where "stat fs p = Inr (File r c)" "is_dir fs p = Inr False"
  | (directory) r s es where "stat fs p = Inr (Dir r s es)" "is_dir fs p = Inr True"
proof (cases "stat fs p")
  case (Inl e)
  then show ?thesis using stat_error[OF Inl] raises missing
    by (auto simp: is_dir_def ignore_error_def)
next
  case (Inr n)
  then show ?thesis using regular directory by (cases n) (auto simp: is_dir_def)
qed

lemma exists_error: "exists fs p = Inl e \<Longrightarrow> e = PermissionError"
  by (cases fs p rule: exists_cases) auto

lemma is_dir_error: "is_dir fs p = Inl e \<Longrightarrow> e = PermissionError"
  by (cases fs p rule: is_dir_cases) auto

lemma iterdir_is_dir_error:
  "is_dir fs p = Inr True \<Longrightarrow> iterdir fs p = Inl e \<Longrightarrow> e = PermissionError"
  by (cases fs p rule: is_dir_cases) (auto simp: iterdir_def split: if_splits)

subsection \<open>Globbing\<close>







lemma glob_stat:
  "glob fs d suf =
     (case stat fs d of
        Inl e \<Rightarrow> if ignore_error e then Inr [] else Inl e
      | Inr n \<Rightarrow> Inr (glob_star suf d n))"
  by (cases fs d rule: is_dir_cases) (auto simp: glob_def ignore_error_def)

lemma rglob_stat:
  "rglob fs d suf =
     (case stat fs d of
        Inl e \<Rightarrow> if ignore_error e then Inr [] else Inl e
      | Inr n \<Rightarrow> Inr (append_new [] (rglob_star suf d n)))"
  by (cases fs d rule: is_dir_cases) (auto simp: rglob_def ignore_error_def)

section \<open>find_scripts\<close>

lemma find_scripts_stat:
  "find_scripts fs d =
     (case stat fs d of
        Inl e \<Rightarrow> if ignore_error e then Inr [] else Inl e
      | Inr n \<Rightarrow>
          Inr (sort (append_new
                 (append_new (glob_star ''.lua'' d n @ glob_star ''.script'' d n)
                    (append_new [] (rglob_star ''.lua'' d n)))
                 (append_new [] (rglob_star ''.script'' d n)))))"
  by (simp add: find_scripts_def glob_stat rglob_stat Let_def split: sum.splits)

lemma find_scripts_exists:
  "exists fs d = Inr b \<Longrightarrow> find_scripts fs d = Inr (scripts_at fs d)"
  by (cases fs d rule: exists_cases)
     (auto simp: scripts_at_def find_scripts_stat split: sum.splits)




section \<open>discover_mods\<close>

subsection \<open>The loops, case by case\<close>

lemma first_entry_cases:
  assumes "first_entry fs d key = r"
  obtains
    (raises) "exists fs d = Inl PermissionError" "r = Inl PermissionError"
  | (missing) "exists fs d = Inr False" "r = Inr []"
  | (found) "exists fs d = Inr True" "r = Inr (item_entry fs key d [])"
proof (cases fs d rule: exists_cases)
  case raises
  then show ?thesis using assms that(1) by (simp add: first_entry_def)
next
  case (missing e)
  then show ?thesis using assms that(2) by (simp add: first_entry_def)
next
  case (found n)
  then show ?thesis using assms that(3) find_scripts_exists[OF found(2)]
    by (simp add: first_entry_def item_entry_def)
qed

lemma scan_subitems_found:
  assumes "is_dir fs sub = Inr True" "exists fs (sub @ [''gamedata'', ''scripts'']) = Inr True"
  shows "scan_subitems fs item (sub # rest) mods =
         scan_subitems fs item rest
           (item_entry fs (path_name item @ ''/'' @ path_name sub)
              (sub @ [''gamedata'', ''scripts'']) mods)"
  by (simp only: scan_subitems.simps Let_def sum.case if_True item_entry_def assms
      find_scripts_exists[OF assms(2)])

lemma scan_subitems_Cons_cases:
  assumes "scan_subitems fs item (sub # rest) mods = r"
  obtains
    (raises) "\<not> child_ok fs sub" "r = Inl PermissionError"
  | (skip) "child_ok fs sub"
      "is_dir fs sub \<noteq> Inr True \<or> exists fs (sub @ [''gamedata'', ''scripts'']) = Inr False"
      "scan_subitems fs item rest mods = r"
  | (found) "child_ok fs sub" "is_dir fs sub = Inr True"
      "exists fs (sub @ [''gamedata'', ''scripts'']) = Inr True"
      "scan_subitems fs item rest
         (item_entry fs (path_name item @ ''/'' @ path_name sub)
            (sub @ [''gamedata'', ''scripts'']) mods) = r"
proof (cases "is_dir fs sub")
  case (Inl e)
  then show ?thesis using assms that(1) is_dir_error[OF Inl]
    by (simp add: child_ok_def answers_def)
next
  case d: (Inr b)
  show ?thesis
  proof (cases b)
    case False
    then show ?thesis using assms d that(2) by (simp add: child_ok_def answers_def)
  next
    case True
    then have d': "is_dir fs sub = Inr True" using d by simp
    show ?thesis
    proof (cases "exists fs (sub @ [''gamedata'', ''scripts''])")
      case (Inl e)
      then show ?thesis using assms d True that(1) exists_error[OF Inl]
        by (simp add: child_ok_def answers_def)
    next
      case (Inr ex)
      show ?thesis
      proof (cases ex)
        case False
        then show ?thesis using assms d True Inr that(2)
          by (simp add: child_ok_def answers_def)
      next
        case t: True
        then have e': "exists fs (sub @ [''gamedata'', ''scripts'']) = Inr True" using Inr by simp
        have "child_ok fs sub" using d' e' by (simp add: child_ok_def answers_def)
        then show ?thesis using that(3) d' e' assms unfolding scan_subitems_found[OF d' e']
          by blast
      qed
    qed
  qed
qed

lemma scan_subitems_result:
  "if \<forall>sub \<in> set subitems. child_ok fs sub
   then \<exists>mods'. scan_subitems fs item subitems mods = Inr mods'
   else scan_subitems fs item subitems mods = Inl PermissionError"
proof (induction subitems arbitrary: mods)
  case Nil
  then show ?case by simp
next
  case (Cons sub rest)
  have "scan_subitems fs item (sub # rest) mods = scan_subitems fs item (sub # rest) mods" ..
  then show ?case
  proof (cases rule: scan_subitems_Cons_cases)
    case raises
    then show ?thesis by simp
  next
    case skip
    show ?thesis using Cons.IH[of mods] skip(1) unfolding skip(3)[symmetric] by simp
  next
    case found
    show ?thesis
      using Cons.IH[of "item_entry fs (path_name item @ ''/'' @ path_name sub)
            (sub @ [''gamedata'', ''scripts'']) mods"] found(1)
      unfolding found(4)[symmetric] by simp
  qed
qed

lemma scan_items_Cons_cases:
  assumes "scan_items fs (item # rest) mods = r"
  obtains
    (raises) "\<not> item_ok fs item" "r = Inl PermissionError"
  | (skip) "item_ok fs item" "\<not> candidate fs item" "scan_items fs rest mods = r"
  | (direct) "item_ok fs item" "candidate fs item"
      "exists fs (item @ [''gamedata'', ''scripts'']) = Inr True"
      "scan_items fs rest (item_entry fs (path_name item) (item @ [''gamedata'', ''scripts'']) mods) = r"
  | (nested) subitems mods1 where "item_ok fs item" "needs_listing fs item"
      "iterdir fs item = Inr subitems"
      "scan_subitems fs item subitems mods = Inr mods1"
      "scan_items fs rest mods1 = r"
proof (cases "is_dir fs item")
  case (Inl e)
  then show ?thesis using assms that(1) is_dir_error[OF Inl]
    by (simp add: item_ok_def answers_def)
next
  case d: (Inr b)
  show ?thesis
  proof (cases "candidate fs item")
    case False
    then have "item_ok fs item"
      using d by (simp add: item_ok_def answers_def needs_listing_def)
    moreover have "scan_items fs rest mods = r"
      using assms d False by (auto simp: candidate_def)
    ultimately show ?thesis using that(2) False by blast
  next
    case c: True
    then have b: "b" and ns: "\<not> skip_name (path_name item)"
      using d by (auto simp: candidate_def)
    show ?thesis
    proof (cases "exists fs (item @ [''gamedata'', ''scripts''])")
      case (Inl e)
      then show ?thesis using assms d b ns that(1) exists_error[OF Inl] c
        by (simp add: item_ok_def answers_def)
    next
      case (Inr ex)
      show ?thesis
      proof (cases ex)
        case True
        then have e': "exists fs (item @ [''gamedata'', ''scripts'']) = Inr True" using Inr by simp
        have "item_ok fs item"
          using d e' by (simp add: item_ok_def answers_def needs_listing_def)
        moreover have "scan_items fs (item # rest) mods = scan_items fs rest
            (item_entry fs (path_name item) (item @ [''gamedata'', ''scripts'']) mods)"
          using b ns
          by (simp only: scan_items.simps Let_def sum.case if_True if_False item_entry_def d e'
              find_scripts_exists[OF e'] not_True_eq_False simp_thms)
        ultimately show ?thesis using that(3) c e' assms by simp
      next
        case False
        then have nl: "needs_listing fs item" using c Inr by (simp add: needs_listing_def)
        show ?thesis
        proof (cases "iterdir fs item")
          case (Inl e)
          then have "e = PermissionError" using iterdir_is_dir_error c by (auto simp: candidate_def)
          then show ?thesis using assms d b ns Inr False Inl that(1) nl
            by (simp add: item_ok_def)
        next
          case l: (Inr subitems)
          show ?thesis
          proof (cases "\<forall>sub \<in> set subitems. child_ok fs sub")
            case True
            then obtain mods1 where m1: "scan_subitems fs item subitems mods = Inr mods1"
              using scan_subitems_result[of subitems fs item mods] by auto
            have "item_ok fs item"
              using d Inr l True by (simp add: item_ok_def answers_def)
            moreover have "scan_items fs rest mods1 = r"
              using assms d b ns Inr False l m1 by simp
            ultimately show ?thesis using that(4) nl l m1 by blast
          next
            case f: False
            then have "scan_subitems fs item subitems mods = Inl PermissionError"
              using scan_subitems_result[of subitems fs item mods] by auto
            moreover have "\<not> item_ok fs item" using nl l f by (simp add: item_ok_def)
            ultimately show ?thesis using assms d b ns Inr False l that(1) by simp
          qed
        qed
      qed
    qed
  qed
qed

lemma discover_mods_cases:
  assumes "discover_mods fs root_path = r"
  obtains
    (gamedata) "path_name root_path = ''gamedata''"
      "first_entry fs (root_path @ [''scripts'']) ''(root)'' = r"
  | (raises) "path_name root_path \<noteq> ''gamedata''"
      "exists fs (root_path @ [''gamedata'', ''scripts'']) = Inl PermissionError"
      "r = Inl PermissionError"
  | (unlisted) e where "path_name root_path \<noteq> ''gamedata''"
      "answers (exists fs (root_path @ [''gamedata'', ''scripts'']))"
      "iterdir fs root_path = Inl e" "r = Inl e"
  | (scan) b items where "path_name root_path \<noteq> ''gamedata''"
      "exists fs (root_path @ [''gamedata'', ''scripts'']) = Inr b"
      "iterdir fs root_path = Inr items"
      "scan_items fs items
         (if b then item_entry fs (path_name root_path) (root_path @ [''gamedata'', ''scripts'']) []
          else []) = r"
proof (cases "path_name root_path = ''gamedata''")
  case True
  then show ?thesis using assms that(1) by (simp add: discover_mods_def)
next
  case False
  have "first_entry fs (root_path @ [''gamedata'', ''scripts'']) (path_name root_path) =
        first_entry fs (root_path @ [''gamedata'', ''scripts'']) (path_name root_path)" ..
  then show ?thesis
  proof (cases rule: first_entry_cases)
    case raises
    then show ?thesis using assms False that(2) by (simp add: discover_mods_def)
  next
    case missing
    then show ?thesis using assms False that(3)[of _] that(4)[of False]
      by (cases "iterdir fs root_path") (auto simp: discover_mods_def answers_def)
  next
    case found
    then show ?thesis using assms False that(3)[of _] that(4)[of True]
      by (cases "iterdir fs root_path") (auto simp: discover_mods_def answers_def)
  qed
qed

subsection \<open>Keys of the result\<close>









subsection \<open>Read errors\<close>

lemma scan_items_result:
  "if \<forall>item \<in> set items. item_ok fs item
   then \<exists>mods'. scan_items fs items mods = Inr mods'
   else scan_items fs items mods = Inl PermissionError"
proof (induction items arbitrary: mods)
  case Nil
  then show ?case by simp
next
  case (Cons item rest)
  have "scan_items fs (item # rest) mods = scan_items fs (item # rest) mods" ..
  then show ?case
  proof (cases rule: scan_items_Cons_cases)
    case raises
    then show ?thesis by simp
  next
    case skip
    show ?thesis using Cons.IH[of mods] skip(1) unfolding skip(3)[symmetric] by simp
  next
    case direct
    show ?thesis
      using Cons.IH[of "item_entry fs (path_name item) (item @ [''gamedata'', ''scripts'']) mods"]
        direct(1)
      unfolding direct(4)[symmetric] by simp
  next
    case (nested subitems mods1)
    show ?thesis using Cons.IH[of mods1] nested(1) unfolding nested(5)[symmetric] by simp
  qed
qed

text \<open>
  Claim C3, as amended. A read error on a subdirectory is fatal: nothing in \<open>discover_mods\<close>
  catches it. For a root not named \<open>gamedata\<close> that can be listed, \<open>discover_mods\<close> returns a
  result exactly when every inspection it makes returns: the test for the root's own
  \<open>gamedata/scripts\<close>, and for every entry of the root the test whether it is a directory,
  for a directory that is not skipped the test for its \<open>gamedata/scripts\<close>, and, when it has
  none, its listing and the same two tests for each of its children. When one of them
  fails, a \<open>PermissionError\<close> leaves \<open>discover_mods\<close> and no result is returned.
\<close>

theorem discover_mods_read_error:
  assumes "path_name root_path \<noteq> ''gamedata''" and "iterdir fs root_path = Inr items"
  shows "if answers (exists fs (root_path @ [''gamedata'', ''scripts'']))
            \<and> (\<forall>item \<in> set items. item_ok fs item)
         then \<exists>mods. discover_mods fs root_path = Inr mods
         else discover_mods fs root_path = Inl PermissionError"
proof -
  have "discover_mods fs root_path = discover_mods fs root_path" ..
  then show ?thesis
  proof (cases rule: discover_mods_cases)
    case gamedata
    then show ?thesis using assms(1) by simp
  next
    case raises
    then show ?thesis by (simp add: answers_def)
  next
    case (unlisted e)
    then show ?thesis using assms(2) by simp
  next
    case (scan b items')
    then have i: "items' = items" using assms(2) by simp
    let ?m = "if b then item_entry fs (path_name root_path) (root_path @ [''gamedata'', ''scripts'']) []
              else []"
    have r: "discover_mods fs root_path = scan_items fs items ?m" using scan(4) i by simp
    have a: "answers (exists fs (root_path @ [''gamedata'', ''scripts'']))"
      using scan(2) by (simp add: answers_def)
    show ?thesis using scan_items_result[of items fs ?m] unfolding r by (auto simp: a)
  qed
qed

theorem discover_mods_read_error_witness:
  "path_name [''mods''] \<noteq> ''gamedata'' \<and>
   iterdir mods_tree [''mods''] =
     Inr [[''mods'', ''gamedata''], [''mods'', ''modA''], [''mods'', ''pack''],
          [''mods'', ''empty''], [''mods'', ''backup''], [''mods'', ''notes.txt'']] \<and>
   needs_listing mods_tree [''mods'', ''pack''] \<and>
   (\<exists>mods. discover_mods mods_tree [''mods''] = Inr mods)"
proof -
  let ?items = "[[''mods'', ''gamedata''], [''mods'', ''modA''], [''mods'', ''pack''],
          [''mods'', ''empty''], [''mods'', ''backup''], [''mods'', ''notes.txt'']]"
  have a: "path_name [''mods''] \<noteq> ''gamedata''" by code_simp
  have b: "iterdir mods_tree [''mods''] = Inr ?items" by code_simp
  have c: "answers (exists mods_tree ([''mods''] @ [''gamedata'', ''scripts'']))
           \<and> (\<forall>item \<in> set ?items. item_ok mods_tree item)"
    by code_simp
  have d: "needs_listing mods_tree [''mods'', ''pack'']" by code_simp
  have "\<exists>mods. discover_mods mods_tree [''mods''] = Inr mods"
    using discover_mods_read_error[OF a b] unfolding if_P[OF c] .
  with a b d show ?thesis by blast
qed

text \<open>
  The claim as stated fails: with one good mod and one folder that cannot be read, the
  whole discovery ends in the error.
\<close>

theorem discover_mods_unreadable_counterexample:
  "has_scripts locked_tree [''mods'', ''modA''] \<and>
   iterdir locked_tree [''mods'', ''locked''] = Inl PermissionError \<and>
   discover_mods locked_tree [''mods''] = Inl PermissionError"
  by code_simp

subsection \<open>No entry without scripts\<close>

lemma nonempty_update:
  "\<forall>e \<in> set mods. snd e \<noteq> [] \<Longrightarrow> v \<noteq> [] \<Longrightarrow> \<forall>e \<in> set (AList.update k v mods). snd e \<noteq> []"
  by (induction mods) auto

lemma item_entry_nonempty:
  "\<forall>e \<in> set mods. snd e \<noteq> [] \<Longrightarrow> \<forall>e \<in> set (item_entry fs key d mods). snd e \<noteq> []"
  unfolding item_entry_def using nonempty_update[of mods] by simp

lemma scan_subitems_nonempty:
  "scan_subitems fs item subitems mods = Inr mods' \<Longrightarrow> \<forall>e \<in> set mods. snd e \<noteq> [] \<Longrightarrow>
   \<forall>e \<in> set mods'. snd e \<noteq> []"
proof (induction subitems arbitrary: mods)
  case (Cons s rest)
  from Cons.prems(1) show ?case
  proof (cases rule: scan_subitems_Cons_cases)
    case raises
    then show ?thesis by simp
  next
    case skip
    then show ?thesis using Cons by blast
  next
    case found
    then show ?thesis using Cons.IH item_entry_nonempty[OF Cons.prems(2)] by blast
  qed
qed simp

lemma scan_items_nonempty:
  "scan_items fs items mods = Inr mods' \<Longrightarrow> \<forall>e \<in> set mods. snd e \<noteq> [] \<Longrightarrow>
   \<forall>e \<in> set mods'. snd e \<noteq> []"
proof (induction items arbitrary: mods)
  case (Cons item rest)
  from Cons.prems(1) show ?case
  proof (cases rule: scan_items_Cons_cases)
    case raises
    then show ?thesis by simp
  next
    case skip
    then show ?thesis using Cons by blast
  next
    case direct
    then show ?thesis using Cons.IH item_entry_nonempty[OF Cons.prems(2)] by blast
  next
    case (nested subitems mods1)
    then show ?thesis using Cons.IH scan_subitems_nonempty[OF nested(4) Cons.prems(2)] by blast
  qed
qed simp

text \<open>
  Claim C6. Every entry of a discovery result has a non-empty script list, whichever check
  registered it. The second half of the claim holds by the shape of the code:
  \<open>discover_mods\<close> only reads the tree and depends on nothing else, so it is a function of
  the tree, and two runs on the same tree return the same result.
\<close>

theorem discover_mods_nonempty:
  assumes "discover_mods fs root_path = Inr mods"
  shows "\<forall>e \<in> set mods. snd e \<noteq> []"
  using assms
proof (cases rule: discover_mods_cases)
  case gamedata
  from gamedata(2) show ?thesis
    by (cases rule: first_entry_cases) (auto simp: item_entry_def split: if_splits)
next
  case raises
  then show ?thesis by simp
next
  case (unlisted e)
  then show ?thesis by simp
next
  case (scan b items)
  have "\<forall>e \<in> set (if b then item_entry fs (path_name root_path)
                      (root_path @ [''gamedata'', ''scripts'']) [] else []). snd e \<noteq> []"
    using item_entry_nonempty[of "[]" fs "path_name root_path" "root_path @ [''gamedata'', ''scripts'']"]
    by (cases b) simp_all
  then show ?thesis using scan_items_nonempty[OF scan(4)] by blast
qed

theorem discover_mods_nonempty_witness:
  "exists mods_tree [''mods'', ''empty'', ''gamedata'', ''scripts''] = Inr True \<and>
   (\<exists>mods. discover_mods mods_tree [''mods''] = Inr mods \<and>
      ''empty'' \<notin> fst ` set mods \<and> (\<forall>e \<in> set mods. snd e \<noteq> []))"
proof -
  let ?mods = "[(''mods'', [[''mods'', ''gamedata'', ''scripts'', ''r.lua'']]),
          (''modA'', [[''mods'', ''modA'', ''gamedata'', ''scripts'', ''a.lua''],
                      [''mods'', ''modA'', ''gamedata'', ''scripts'', ''b.script'']]),
          (''pack/opt'', [[''mods'', ''pack'', ''opt'', ''gamedata'', ''scripts'', ''o.script'']])]"
  have v: "discover_mods mods_tree [''mods''] = Inr ?mods" by code_simp
  have e: "exists mods_tree [''mods'', ''empty'', ''gamedata'', ''scripts''] = Inr True" by code_simp
  have k: "''empty'' \<notin> fst ` set ?mods" by simp
  from discover_mods_nonempty[OF v] v e k show ?thesis by blast
qed

section \<open>get_mod_info\<close>

lemma split1_key:
  assumes "startswith line (key @ ''='')" "CHR ''='' \<notin> set key"
  shows "getitem (split1 (CHR ''='') line) 1 = Inr (drop (length key + 1) line)"
proof -
  from startswith_append[OF assms(1)]
  have l: "line = key @ CHR ''='' # drop (length key + 1) line" by simp
  have "dropWhile (\<lambda>c. c \<noteq> CHR ''='') line = CHR ''='' # drop (length key + 1) line"
    by (subst l, subst dropWhile_append3) (use assms(2) in auto)
  then show ?thesis by (simp add: split1_def getitem_def)
qed

lemma set_field_key:
  assumes "startswith line (key @ ''='')" "CHR ''='' \<notin> set key"
  shows "set_field key line info =
           Inr (AList.update key (strip (drop (length key + 1) line)) info)"
  using split1_key[OF assms] by (simp add: set_field_def)

lemma meta_lines_Cons_cases:
  assumes "meta_lines (line # rest) info = r"
  obtains
    (name) "startswith line ''name=''"
      "meta_lines rest (AList.update ''name'' (strip (drop (length ''name'' + 1) line)) info) = r"
  | (version) "startswith line ''version=''" "\<not> startswith line ''name=''"
      "meta_lines rest (AList.update ''version'' (strip (drop (length ''version'' + 1) line)) info) = r"
  | (author) "startswith line ''author=''" "\<not> startswith line ''name=''"
      "\<not> startswith line ''version=''"
      "meta_lines rest (AList.update ''author'' (strip (drop (length ''author'' + 1) line)) info) = r"
  | (other) "\<not> startswith line ''name=''" "\<not> startswith line ''version=''"
      "\<not> startswith line ''author=''" "meta_lines rest info = r"
proof -
  consider (n) "startswith line ''name=''"
    | (v) "\<not> startswith line ''name=''" "startswith line ''version=''"
    | (a) "\<not> startswith line ''name=''" "\<not> startswith line ''version=''" "startswith line ''author=''"
    | (o) "\<not> startswith line ''name=''" "\<not> startswith line ''version=''"
          "\<not> startswith line ''author=''"
    by blast
  then show ?thesis
  proof cases
    case n
    then show ?thesis using assms name set_field_key[of line "''name''" info] by simp
  next
    case v
    then show ?thesis using assms version set_field_key[of line "''version''" info] by simp
  next
    case a
    then show ?thesis using assms author set_field_key[of line "''author''" info] by simp
  next
    case o
    then show ?thesis using assms other by simp
  qed
qed

lemma meta_lines_total: "\<exists>info'. meta_lines ls info = Inr info'"
proof (induction ls arbitrary: info)
  case Nil
  then show ?case by simp
next
  case (Cons line rest)
  have "meta_lines (line # rest) info = meta_lines (line # rest) info" ..
  then show ?case
  proof (cases rule: meta_lines_Cons_cases)
    case name
    then show ?thesis using Cons.IH by metis
  next
    case version
    then show ?thesis using Cons.IH by metis
  next
    case author
    then show ?thesis using Cons.IH by metis
  next
    case other
    then show ?thesis using Cons.IH by metis
  qed
qed

lemma read_text_OSError: "read_text fs p = Inl e \<Longrightarrow> is_OSError e"
  by (auto simp: read_text_def split: sum.splits node.splits if_splits dest!: stat_error
      simp: ignore_error_def)

lemma canon_append:
  "canon fs cur (p @ p') = (case canon fs cur p of Inl e \<Rightarrow> Inl e | Inr q \<Rightarrow> canon fs q p')"
  by (induction fs cur p rule: canon.induct) (auto split: option.splits node.splits)

text \<open>Two entries of the same folder: asking for one raises exactly when asking for the
  other does.\<close>

lemma exists_sibling: "answers (exists fs (p @ [x])) \<Longrightarrow> answers (exists fs (p @ [y]))"
proof (cases "canon fs [] p")
  case (Inl e)
  then have s: "stat fs (p @ [z]) = Inl e" for z by (simp add: stat_def canon_append)
  assume "answers (exists fs (p @ [x]))"
  then have "ignore_error e" using s[of x] by (auto simp: exists_def answers_def split: if_splits)
  then show ?thesis using s[of y] by (simp add: exists_def answers_def)
next
  case (Inr q)
  assume "answers (exists fs (p @ [x]))"
  then show ?thesis using Inr
    by (auto simp: exists_def stat_def canon_append answers_def ignore_error_def
        split: if_splits option.splits node.splits sum.splits)
qed


lemma read_meta_ini_result:
  assumes "answers (exists fs (p @ [''meta.ini'']))"
  shows "\<exists>info'. read_meta_ini fs p info = Inr info'"
    and "\<not> (\<exists>c. read_text fs (p @ [''meta.ini'']) = Inr c) \<Longrightarrow> read_meta_ini fs p info = Inr info"
proof -
  obtain b where b: "exists fs (p @ [''meta.ini'']) = Inr b"
    using assms by (auto simp: answers_def split: sum.splits)
  show "\<exists>info'. read_meta_ini fs p info = Inr info'"
  proof (cases "read_text fs (p @ [''meta.ini''])")
    case (Inl e)
    then show ?thesis using read_text_OSError[OF Inl] b
      by (simp add: read_meta_ini_def except_OSError_def Let_def)
  next
    case (Inr c)
    then show ?thesis using meta_lines_total[of "splitlines c" info] b
      by (auto simp: read_meta_ini_def except_OSError_def Let_def)
  qed
  show "read_meta_ini fs p info = Inr info"
    if "\<not> (\<exists>c. read_text fs (p @ [''meta.ini'']) = Inr c)"
    using that b
    by (cases "read_text fs (p @ [''meta.ini''])")
       (auto simp: read_meta_ini_def except_OSError_def Let_def dest: read_text_OSError)
qed

lemma read_modinfo_result:
  assumes "answers (exists fs (p @ [''modinfo.txt'']))"
  shows "\<exists>info'. read_modinfo fs p info = Inr info'
           \<and> (\<forall>k. k \<noteq> ''name'' \<longrightarrow> map_of info' k = map_of info k)"
    and "\<not> (\<exists>c. read_text fs (p @ [''modinfo.txt'']) = Inr c) \<Longrightarrow> read_modinfo fs p info = Inr info"
proof -
  obtain b where b: "exists fs (p @ [''modinfo.txt'']) = Inr b"
    using assms by (auto simp: answers_def split: sum.splits)
  show "\<exists>info'. read_modinfo fs p info = Inr info'
           \<and> (\<forall>k. k \<noteq> ''name'' \<longrightarrow> map_of info' k = map_of info k)"
  proof (cases "read_text fs (p @ [''modinfo.txt''])")
    case (Inl e)
    then show ?thesis using read_text_OSError[OF Inl] b
      by (simp add: read_modinfo_def except_OSError_def Let_def)
  next
    case (Inr c)
    then show ?thesis using b
      by (auto simp: read_modinfo_def except_OSError_def getitem_def Let_def update_conv')
  qed
  show "read_modinfo fs p info = Inr info"
    if "\<not> (\<exists>c. read_text fs (p @ [''modinfo.txt'']) = Inr c)"
    using that b
    by (cases "read_text fs (p @ [''modinfo.txt''])")
       (auto simp: read_modinfo_def except_OSError_def Let_def dest: read_text_OSError)
qed

text \<open>
  What holds of the claim: when the two tests \<open>exists\<close> return, \<open>get_mod_info\<close> returns a
  record, whatever reading the files does; and when neither file can be read, the record
  holds the name of the mod folder and nothing else.
\<close>

lemma get_mod_info_returns:
  assumes "answers (exists fs (mod_path @ [''meta.ini'']))"
  shows "(\<exists>info. get_mod_info fs mod_path = Inr info) \<and>
   ((\<forall>f \<in> {''meta.ini'', ''modinfo.txt''}. \<not> (\<exists>c. read_text fs (mod_path @ [f]) = Inr c)) \<longrightarrow>
      get_mod_info fs mod_path = Inr [(''name'', path_name mod_path)])"
proof -
  have m: "answers (exists fs (mod_path @ [''modinfo.txt'']))"
    using exists_sibling[OF assms] .
  obtain i1 where i1: "read_meta_ini fs mod_path [(''name'', path_name mod_path)] = Inr i1"
    using read_meta_ini_result(1)[OF assms] by blast
  obtain i2 where i2: "read_modinfo fs mod_path i1 = Inr i2"
    using read_modinfo_result(1)[OF m] by blast
  show ?thesis
    using i1 i2 read_meta_ini_result(2)[OF assms, of "[(''name'', path_name mod_path)]"]
      read_modinfo_result(2)[OF m]
    by (auto simp: get_mod_info_def)
qed

text \<open>
  Claim C5. The claim fails on the code: the tests \<open>meta_ini.exists()\<close> and
  \<open>modinfo.exists()\<close> stand outside the \<open>try\<close> blocks, and below a folder that cannot be
  searched they raise. For a mod folder that can be listed but not searched, holding a
  \<open>meta.ini\<close>, \<open>get_mod_info\<close> ends in a \<open>PermissionError\<close> instead of returning the record
  with the name of the folder.
\<close>

theorem get_mod_info_raises:
  "iterdir unsearchable_mod_tree [''modB''] = Inr [[''modB'', ''meta.ini'']] \<and>
   exists unsearchable_mod_tree [''modB'', ''meta.ini''] = Inl PermissionError \<and>
   get_mod_info unsearchable_mod_tree [''modB''] = Inl PermissionError"
  by code_simp





section \<open>extract_scripts\<close>

subsection \<open>Nothing to export\<close>

lemma add_scripts_Nil: "add_scripts mods name [] acc = Inr acc"
  by simp

lemma stat_prefix_error:
  "stat fs d = Inl PermissionError \<Longrightarrow> stat fs (d @ p) = Inl PermissionError"
  by (auto simp: stat_def canon_append split: sum.splits option.splits)

lemma rglob_answers:
  assumes "rglob fs (d @ p) suf = Inr l"
  shows "answers (is_dir fs d)" "answers (exists fs (d @ p))"
proof -
  have n: "stat fs (d @ p) \<noteq> Inl PermissionError"
    using assms by (auto simp: rglob_stat ignore_error_def)
  then have "stat fs d \<noteq> Inl PermissionError" using stat_prefix_error by blast
  then show "answers (is_dir fs d)"
    by (cases fs d rule: is_dir_cases) (auto simp: answers_def)
  show "answers (exists fs (d @ p))" using n
    by (cases fs "d @ p" rule: exists_cases) (auto simp: answers_def)
qed

lemma scan_mod_dirs_nothing:
  "\<forall>d \<in> set dirs. rglob fs (d @ [''gamedata'', ''scripts'']) ''.script'' = Inr [] \<Longrightarrow>
   scan_mod_dirs fs mods dirs acc = Inr acc"
proof (induction dirs arbitrary: acc)
  case Nil
  then show ?case by simp
next
  case (Cons d rest)
  then have r: "rglob fs (d @ [''gamedata'', ''scripts'']) ''.script'' = Inr []" by simp
  from rglob_answers[OF r] obtain b ex where
    "is_dir fs d = Inr b" "exists fs (d @ [''gamedata'', ''scripts'']) = Inr ex"
    by (auto simp: answers_def split: sum.splits)
  then show ?case using Cons r by (simp add: Let_def)
qed

text \<open>
  Claim C10. When the mods path can be listed and the recursive search for \<open>*.script\<close> in the
  \<open>gamedata/scripts\<close> tree of each of its entries finds nothing, \<open>extract_scripts\<close> returns
  stats with no mods, zero files, zero total size and no failures, and the tree is left as
  it was: the output directory is not created and nothing is written.
\<close>

theorem extract_scripts_nothing_found:
  assumes "iterdir fs mods_path = Inr mod_dirs"
    and "\<forall>d \<in> set mod_dirs. rglob fs (d @ [''gamedata'', ''scripts'']) ''.script'' = Inr []"
  shows "extract_scripts fs mods_path output_path =
           Inr (\<lparr>stats_mods = {}, stats_files = 0, stats_total_size = 0, stats_errors = []\<rparr>, fs)"
  using assms scan_mod_dirs_nothing[OF assms(2), of mods_path "[]"]
  by (simp add: extract_scripts_def find_script_files_def initial_stats_def)

theorem extract_scripts_nothing_found_witness:
  "iterdir lua_only_tree [''mods''] =
     Inr [[''mods'', ''modA''], [''mods'', ''modB''], [''mods'', ''readme.txt'']] \<and>
   exists lua_only_tree [''mods'', ''modA'', ''gamedata'', ''scripts'', ''a.lua''] = Inr True \<and>
   exists lua_only_tree [''out''] = Inr False \<and>
   extract_scripts lua_only_tree [''mods''] [''out''] =
     Inr (\<lparr>stats_mods = {}, stats_files = 0, stats_total_size = 0, stats_errors = []\<rparr>,
          lua_only_tree)"
proof -
  let ?dirs = "[[''mods'', ''modA''], [''mods'', ''modB''], [''mods'', ''readme.txt'']]"
  have a: "iterdir lua_only_tree [''mods''] = Inr ?dirs" by code_simp
  have b: "\<forall>d \<in> set ?dirs. rglob lua_only_tree (d @ [''gamedata'', ''scripts'']) ''.script'' = Inr []"
    by code_simp
  have c: "exists lua_only_tree [''mods'', ''modA'', ''gamedata'', ''scripts'', ''a.lua''] = Inr True"
    "exists lua_only_tree [''out''] = Inr False"
    by code_simp+
  from extract_scripts_nothing_found[OF a b, of "[''out'']"] a c show ?thesis by simp
qed

section \<open>The chunk splitter\<close>

subsection \<open>Exit codes and the dry run\<close>

lemma get_mods_exists: "get_mods fs p = Inr mods \<Longrightarrow> exists fs p = Inr True"
  by (auto simp: get_mods_def iterdir_def exists_def split: sum.splits)

text \<open>
  Claim C9. The exit code of the chunk splitter is 1 when no path is given at all, when the
  given path does not exist (or the test for it raises, which ends the process with code 1
  as well), and when no mods are found (also in \<open>--list\<close> mode, where this check comes
  first). In \<open>--list\<close> mode with mods found, the program prints the header and one
  line for each mod with its name and its count, and exits with code 0. In \<open>--list\<close> mode the
  tree is never changed, however many mods there are: no archive is created.
\<close>

theorem main_exit_codes_and_list_mode:
  "(\<forall>out. get_path args stdin_line = (out, None) \<longrightarrow>
      exit_code (run_outcome (main env args stdin_line fs)) = 1) \<and>
   (\<forall>out mods_path. get_path args stdin_line = (out, Some mods_path) \<longrightarrow>
      (exists fs mods_path \<noteq> Inr True \<longrightarrow>
         exit_code (run_outcome (main env args stdin_line fs)) = 1) \<and>
      (get_mods fs mods_path = Inr [] \<longrightarrow>
         exit_code (run_outcome (main env args stdin_line fs)) = 1) \<and>
      (\<forall>mods. args_list args \<and> get_mods fs mods_path = Inr mods \<and> mods \<noteq> [] \<longrightarrow>
         run_outcome (main env args stdin_line fs) = Exit 0 \<and>
         run_stdout (main env args stdin_line fs) =
           out @ [Scanning mods_path, Found (length mods) (sum_list (map snd mods)), ModsHeader]
           @ map (\<lambda>m. ModLine (path_name (fst m)) (snd m)) mods)) \<and>
   (args_list args \<longrightarrow> run_disk (main env args stdin_line fs) = fs)"
proof (intro conjI allI impI)
  fix out assume "get_path args stdin_line = (out, None)"
  then show "exit_code (run_outcome (main env args stdin_line fs)) = 1"
    by (simp add: main_def)
next
  fix out mods_path
  assume "get_path args stdin_line = (out, Some mods_path)" "exists fs mods_path \<noteq> Inr True"
  then show "exit_code (run_outcome (main env args stdin_line fs)) = 1"
    by (cases "exists fs mods_path") (auto simp: main_def)
next
  fix out mods_path
  assume "get_path args stdin_line = (out, Some mods_path)" "get_mods fs mods_path = Inr []"
  then show "exit_code (run_outcome (main env args stdin_line fs)) = 1"
    using get_mods_exists[of fs mods_path "[]"] by (simp add: main_def)
next
  fix out mods_path mods
  assume a: "get_path args stdin_line = (out, Some mods_path)"
    "args_list args \<and> get_mods fs mods_path = Inr mods \<and> mods \<noteq> []"
  then have e: "exists fs mods_path = Inr True" using get_mods_exists by blast
  show "run_outcome (main env args stdin_line fs) = Exit 0"
    using a e by (simp add: main_def)
  show "run_stdout (main env args stdin_line fs) =
           out @ [Scanning mods_path, Found (length mods) (sum_list (map snd mods)), ModsHeader]
           @ map (\<lambda>m. ModLine (path_name (fst m)) (snd m)) mods"
    using a e by (simp add: main_def)
next
  assume "args_list args"
  then show "run_disk (main env args stdin_line fs) = fs"
    by (cases "get_path args stdin_line")
       (auto simp: main_def Let_def split: option.splits sum.splits)
qed

theorem main_exit_codes_and_list_mode_witness:
  "exit_code (run_outcome (main test_env (list_args\<lparr>args_path := None\<rparr>) ''  '' chunk_tree)) = 1 \<and>
   exit_code (run_outcome (main test_env (list_args\<lparr>args_path := Some ''nowhere''\<rparr>) '''' chunk_tree)) = 1 \<and>
   exit_code (run_outcome (main test_env (split_args\<lparr>args_path := Some ''mods/lua''\<rparr>) '''' chunk_tree)) = 1 \<and>
   run_outcome (main test_env list_args '''' chunk_tree) = Exit 0 \<and>
   run_stdout (main test_env list_args '''' chunk_tree) =
     [Scanning [''mods''], Found 5 6, ModsHeader, ModLine ''m1'' 1, ModLine ''m2'' 2,
      ModLine ''m3'' 1, ModLine ''m4'' 1, ModLine ''m5'' 1] \<and>
   run_disk (main test_env list_args '''' chunk_tree) = chunk_tree"
proof -
  let ?mods = "[([''mods'', ''m1''], 1), ([''mods'', ''m2''], 2), ([''mods'', ''m3''], 1),
               ([''mods'', ''m4''], 1), ([''mods'', ''m5''], 1)] :: (path \<times> nat) list"
  have p0: "get_path (list_args\<lparr>args_path := None\<rparr>) ''  '' = ([Prompt, NoPathProvided], None)"
    by code_simp
  have p1: "get_path (list_args\<lparr>args_path := Some ''nowhere''\<rparr>) '''' = ([], Some [''nowhere''])"
    by code_simp
  have n1: "exists chunk_tree [''nowhere''] \<noteq> Inr True" by code_simp
  have p2: "get_path (split_args\<lparr>args_path := Some ''mods/lua''\<rparr>) '''' = ([], Some [''mods'', ''lua''])"
    by code_simp
  have n2: "get_mods chunk_tree [''mods'', ''lua''] = Inr []" by code_simp
  have p3: "get_path list_args '''' = ([], Some [''mods''])" by code_simp
  have l: "args_list list_args" by code_simp
  have m: "get_mods chunk_tree [''mods''] = Inr ?mods" by code_simp
  have s: "[] @ [Scanning [''mods''], Found (length ?mods) (sum_list (map snd ?mods)), ModsHeader]
           @ map (\<lambda>m. ModLine (path_name (fst m)) (snd m)) ?mods =
     [Scanning [''mods''], Found 5 6, ModsHeader, ModLine ''m1'' 1, ModLine ''m2'' 2,
      ModLine ''m3'' 1, ModLine ''m4'' 1, ModLine ''m5'' 1]"
    by code_simp
  have ne: "?mods \<noteq> []" by simp
  from main_exit_codes_and_list_mode[of "list_args\<lparr>args_path := None\<rparr>" "''  ''" test_env chunk_tree] p0
  have r0: "exit_code (run_outcome (main test_env (list_args\<lparr>args_path := None\<rparr>) ''  '' chunk_tree)) = 1"
    by blast
  from main_exit_codes_and_list_mode[of "list_args\<lparr>args_path := Some ''nowhere''\<rparr>" "''''" test_env chunk_tree] p1 n1
  have r1: "exit_code (run_outcome (main test_env (list_args\<lparr>args_path := Some ''nowhere''\<rparr>) '''' chunk_tree)) = 1"
    by blast
  from main_exit_codes_and_list_mode[of "split_args\<lparr>args_path := Some ''mods/lua''\<rparr>" "''''" test_env chunk_tree] p2 n2
  have r2: "exit_code (run_outcome (main test_env (split_args\<lparr>args_path := Some ''mods/lua''\<rparr>) '''' chunk_tree)) = 1"
    by blast
  from main_exit_codes_and_list_mode[of list_args "''''" test_env chunk_tree] p3 l m ne
  have r3: "run_outcome (main test_env list_args '''' chunk_tree) = Exit 0"
    "run_stdout (main test_env list_args '''' chunk_tree) =
       [] @ [Scanning [''mods''], Found (length ?mods) (sum_list (map snd ?mods)), ModsHeader]
           @ map (\<lambda>m. ModLine (path_name (fst m)) (snd m)) ?mods"
    "run_disk (main test_env list_args '''' chunk_tree) = chunk_tree"
    by blast+
  show ?thesis using r0 r1 r2 r3(1,3) r3(2)[unfolded s] by blast
qed

end
